theory Spec2Isabelle
  imports Main "HOL-Library.Word" "HOL-Library.Signed_Division"
begin

section \<open>JNI scalar types, native pointers and caller-owned memory\<close>

text \<open>
  The four translation units (\<^verbatim>\<open>spokestack/jni/vad.cpp\<close>, \<^verbatim>\<open>spokestack/jni/agc.cpp\<close>,
  \<^verbatim>\<open>jni/ans.cpp\<close>, \<^verbatim>\<open>jni/vad.cpp\<close>) are JNI wrappers around four C libraries whose
  sources and headers are not part of the repository. The scalar types are those of
  \<^verbatim>\<open>jni.h\<close>: \<^verbatim>\<open>jint\<close> is a 32-bit and \<^verbatim>\<open>jlong\<close> a 64-bit two's complement integer,
  \<^verbatim>\<open>jboolean\<close> an unsigned byte. Native pointers are byte addresses of an LP64 target
  (arm64-v8a, x86_64), so that \<^verbatim>\<open>(jlong)ptr\<close> and \<^verbatim>\<open>(T*)handle\<close> are the identity and
  \<^verbatim>\<open>size_t\<close> is an unsigned 64-bit integer. \<^verbatim>\<open>NULL\<close> is the address 0.
\<close>

type_synonym jint = "32 word"
type_synonym jlong = "64 word"
type_synonym jboolean = "8 word"
type_synonym int16_t = "16 word"
type_synonym uint8_t = "8 word"
type_synonym ptr = "64 word"
type_synonym size_t = "64 word"
type_synonym jobject = nat
type_synonym mem = "ptr \<Rightarrow> 8 word"

text \<open>C's \<^verbatim>\<open>/\<close> on two \<^verbatim>\<open>int\<close> operands truncates toward zero.\<close>

definition int_div :: "jint \<Rightarrow> jint \<Rightarrow> jint" where
  "int_div a b = word_of_int (sint a sdiv sint b)"

text \<open>
  \<^verbatim>\<open>offset / sizeof(int16_t)\<close>: \<^verbatim>\<open>sizeof\<close> has type \<^verbatim>\<open>size_t\<close>, so the \<^verbatim>\<open>jint\<close> operand
  is converted to \<^verbatim>\<open>size_t\<close> (value modulo \<open>2^64\<close>, that is sign extension) and the
  division is the unsigned one.
\<close>

definition sizeof_int16_t :: size_t where
  "sizeof_int16_t = 2"

definition size_div :: "jint \<Rightarrow> size_t \<Rightarrow> size_t" where
  "size_div a b = (scast a :: size_t) div b"

text \<open>\<^verbatim>\<open>frame += k\<close> on an \<^verbatim>\<open>int16_t*\<close>: the address moves by \<open>k\<close> elements of two bytes.\<close>

definition int16_ptr_add :: "ptr \<Rightarrow> size_t \<Rightarrow> ptr" where
  "int16_ptr_add p k = p + sizeof_int16_t * k"

text \<open>The JNI environment: only \<^verbatim>\<open>GetDirectBufferAddress\<close> is used.\<close>

record jni_env =
  GetDirectBufferAddress :: "jobject \<Rightarrow> ptr"

section \<open>The engines' entry points\<close>

text \<open>
  The engines are external: each entry point is a parameter, a function on the
  engines' private state \<open>'e\<close> (all instances, opaque to the wrappers). An entry point
  that returns through an out-pointer returns the content of the pointed-to variable
  after the call; \<^verbatim>\<open>Process\<close> entry points also receive and return the caller-owned
  memory their frame pointers point into. The results of the \<^verbatim>\<open>Free\<close> functions are
  discarded by every caller and are left out.
\<close>

record 'e webrtc_vad =
  WebRtcVad_Create :: "'e \<Rightarrow> jint \<times> ptr \<times> 'e"
  WebRtcVad_Init :: "ptr \<Rightarrow> 'e \<Rightarrow> jint \<times> 'e"
  WebRtcVad_set_mode :: "ptr \<Rightarrow> jint \<Rightarrow> 'e \<Rightarrow> jint \<times> 'e"
  WebRtcVad_Free :: "ptr \<Rightarrow> 'e \<Rightarrow> 'e"
  WebRtcVad_Process :: "ptr \<Rightarrow> jint \<Rightarrow> ptr \<Rightarrow> jint \<Rightarrow> 'e \<times> mem \<Rightarrow> jint \<times> 'e \<times> mem"

text \<open>
  The header \<^verbatim>\<open>gain_control.h\<close> is not among the sources; its declarations are those of
  the upstream library. \<^verbatim>\<open>WebRtcAgc_config_t\<close> has the fields \<^verbatim>\<open>int16_t targetLevelDbfs\<close>,
  \<^verbatim>\<open>int16_t compressionGaindB\<close> and \<^verbatim>\<open>uint8_t limiterEnable\<close>, the three the wrapper
  assigns after \<^verbatim>\<open>memset\<close> to zero, and \<^verbatim>\<open>WebRtcAgc_Process\<close> declares \<^verbatim>\<open>int16_t samples\<close>:
  the wrapper's \<^verbatim>\<open>int\<close> values are converted at the assignments and at the call, which
  keeps their low bits. The constants \<^verbatim>\<open>kAgcModeFixedDigital\<close>, \<^verbatim>\<open>kAgcTrue\<close> and
  \<^verbatim>\<open>kAgcFalse\<close> come from the same header and are parameters.
  \<^verbatim>\<open>WebRtcAgc_Process\<close> takes, in the order of the C call, the instance, \<^verbatim>\<open>inNear\<close>,
  \<^verbatim>\<open>inNear_H\<close>, \<^verbatim>\<open>samples\<close>, \<^verbatim>\<open>out\<close>, \<^verbatim>\<open>out_H\<close>, \<^verbatim>\<open>inMicLevel\<close>, the content of
  \<^verbatim>\<open>*outMicLevel\<close>, \<^verbatim>\<open>echo\<close> and the content of \<^verbatim>\<open>*saturationWarning\<close>; it returns the
  status, the new contents of \<^verbatim>\<open>*outMicLevel\<close> and \<^verbatim>\<open>*saturationWarning\<close>, the engine
  state and the memory.
\<close>

record WebRtcAgc_config_t =
  config_targetLevelDbfs :: int16_t
  config_compressionGaindB :: int16_t
  config_limiterEnable :: uint8_t

record 'e webrtc_agc =
  kAgcModeFixedDigital :: jint
  kAgcTrue :: jint
  kAgcFalse :: jint
  WebRtcAgc_Create :: "'e \<Rightarrow> jint \<times> ptr \<times> 'e"
  WebRtcAgc_Init :: "ptr \<Rightarrow> jint \<Rightarrow> jint \<Rightarrow> jint \<Rightarrow> jint \<Rightarrow> 'e \<Rightarrow> jint \<times> 'e"
  WebRtcAgc_set_config :: "ptr \<Rightarrow> WebRtcAgc_config_t \<Rightarrow> 'e \<Rightarrow> jint \<times> 'e"
  WebRtcAgc_Free :: "ptr \<Rightarrow> 'e \<Rightarrow> 'e"
  WebRtcAgc_Process :: "ptr \<Rightarrow> ptr \<Rightarrow> ptr \<Rightarrow> int16_t \<Rightarrow> ptr \<Rightarrow> ptr \<Rightarrow> jint \<Rightarrow> jint
    \<Rightarrow> jint \<Rightarrow> uint8_t \<Rightarrow> 'e \<times> mem \<Rightarrow> jint \<times> jint \<times> uint8_t \<times> 'e \<times> mem"

record 'e webrtc_nsx =
  WebRtcNsx_Create :: "'e \<Rightarrow> jint \<times> ptr \<times> 'e"
  WebRtcNsx_Init :: "ptr \<Rightarrow> jint \<Rightarrow> 'e \<Rightarrow> jint \<times> 'e"
  WebRtcNsx_set_policy :: "ptr \<Rightarrow> jint \<Rightarrow> 'e \<Rightarrow> jint \<times> 'e"
  WebRtcNsx_Free :: "ptr \<Rightarrow> 'e \<Rightarrow> 'e"
  WebRtcNsx_Process :: "ptr \<Rightarrow> ptr \<Rightarrow> ptr \<Rightarrow> ptr \<Rightarrow> ptr \<Rightarrow> 'e \<times> mem \<Rightarrow> jint \<times> 'e \<times> mem"

record 'e libfvad =
  fvad_new :: "'e \<Rightarrow> ptr \<times> 'e"
  fvad_set_mode :: "ptr \<Rightarrow> jint \<Rightarrow> 'e \<Rightarrow> jint \<times> 'e"
  fvad_set_sample_rate :: "ptr \<Rightarrow> jint \<Rightarrow> 'e \<Rightarrow> jint \<times> 'e"
  fvad_free :: "ptr \<Rightarrow> 'e \<Rightarrow> 'e"
  fvad_process :: "ptr \<Rightarrow> ptr \<Rightarrow> jint \<Rightarrow> 'e \<times> mem \<Rightarrow> jint \<times> 'e \<times> mem"

section \<open>The state of the process and the trace of engine calls\<close>

text \<open>
  Every call of an engine entry point is recorded, with its arguments and with the
  status (and, for an allocation, the pointer) it returned, in the order of the calls.
\<close>

datatype call =
    VadCreate jint ptr
  | VadInit ptr jint
  | VadSetMode ptr jint jint
  | VadFree ptr
  | VadProcess ptr jint ptr jint jint
  | AgcCreate jint ptr
  | AgcInit ptr jint jint jint jint jint
  | AgcSetConfig ptr WebRtcAgc_config_t jint
  | AgcFree ptr
  | AgcProcess ptr ptr ptr int16_t ptr ptr jint jint jint
  | NsxCreate jint ptr
  | NsxInit ptr jint jint
  | NsxSetPolicy ptr jint jint
  | NsxFree ptr
  | NsxProcess ptr ptr ptr ptr ptr jint
  | FvadNew ptr
  | FvadSetMode ptr jint jint
  | FvadSetSampleRate ptr jint jint
  | FvadFree ptr
  | FvadProcess ptr ptr jint jint

text \<open>
  The state: the engines' private state, the caller-owned memory, the module variable
  \<^verbatim>\<open>static int32_t miclevel\<close> of \<^verbatim>\<open>agc.cpp\<close>, and the trace.
\<close>

record 'e world =
  engines :: 'e
  memory :: mem
  miclevel :: jint
  calls :: "call list"

text \<open>The state at process start: \<^verbatim>\<open>static int32_t miclevel = 128;\<close> and no call made.\<close>

definition process_start :: "'e \<Rightarrow> mem \<Rightarrow> 'e world" where
  "process_start e m = \<lparr>engines = e, memory = m, miclevel = 128, calls = []\<rparr>"

text \<open>Calling an entry point: the engine state is threaded and the call is recorded.\<close>

definition invoke_create :: "('e \<Rightarrow> jint \<times> ptr \<times> 'e) \<Rightarrow> (jint \<Rightarrow> ptr \<Rightarrow> call) \<Rightarrow> 'e world
    \<Rightarrow> jint \<times> ptr \<times> 'e world" where
  "invoke_create f ev s =
     (case f (engines s) of (r, p, e') \<Rightarrow>
        (r, p, s\<lparr>engines := e', calls := calls s @ [ev r p]\<rparr>))"

definition invoke :: "('e \<Rightarrow> jint \<times> 'e) \<Rightarrow> (jint \<Rightarrow> call) \<Rightarrow> 'e world \<Rightarrow> jint \<times> 'e world" where
  "invoke f ev s =
     (case f (engines s) of (r, e') \<Rightarrow> (r, s\<lparr>engines := e', calls := calls s @ [ev r]\<rparr>))"

definition invoke_void :: "('e \<Rightarrow> 'e) \<Rightarrow> call \<Rightarrow> 'e world \<Rightarrow> 'e world" where
  "invoke_void f ev s = s\<lparr>engines := f (engines s), calls := calls s @ [ev]\<rparr>"

definition invoke_process :: "('e \<times> mem \<Rightarrow> jint \<times> 'e \<times> mem) \<Rightarrow> (jint \<Rightarrow> call) \<Rightarrow> 'e world
    \<Rightarrow> jint \<times> 'e world" where
  "invoke_process f ev s =
     (case f (engines s, memory s) of (r, e', m') \<Rightarrow>
        (r, s\<lparr>engines := e', memory := m', calls := calls s @ [ev r]\<rparr>))"

section \<open>\<^verbatim>\<open>spokestack/jni/vad.cpp\<close>: the voice activity detector\<close>

definition Java_io_spokestack_spokestack_webrtc_VoiceActivityDetector_create ::
    "'e webrtc_vad \<Rightarrow> jint \<Rightarrow> 'e world \<Rightarrow> jlong \<times> 'e world" where
  "Java_io_spokestack_spokestack_webrtc_VoiceActivityDetector_create V mode s =
     (case invoke_create (WebRtcVad_Create V) VadCreate s of (result, vad, s1) \<Rightarrow>
        if result = 0 then
          (case invoke (WebRtcVad_Init V vad) (VadInit vad) s1 of (result, s2) \<Rightarrow>
             (case (if result = 0
                    then invoke (WebRtcVad_set_mode V vad mode) (VadSetMode vad mode) s2
                    else (result, s2)) of (result, s3) \<Rightarrow>
                if result \<noteq> 0
                then (0, invoke_void (WebRtcVad_Free V vad) (VadFree vad) s3)
                else (vad, s3)))
        else (vad, s1))"

definition Java_io_spokestack_spokestack_webrtc_VoiceActivityDetector_destroy ::
    "'e webrtc_vad \<Rightarrow> jlong \<Rightarrow> 'e world \<Rightarrow> 'e world" where
  "Java_io_spokestack_spokestack_webrtc_VoiceActivityDetector_destroy V vad s =
     invoke_void (WebRtcVad_Free V vad) (VadFree vad) s"

definition Java_io_spokestack_spokestack_webrtc_VoiceActivityDetector_process ::
    "'e webrtc_vad \<Rightarrow> jni_env \<Rightarrow> jlong \<Rightarrow> jint \<Rightarrow> jobject \<Rightarrow> jint \<Rightarrow> 'e world \<Rightarrow> jint \<times> 'e world" where
  "Java_io_spokestack_spokestack_webrtc_VoiceActivityDetector_process V env vad rate buffer length' s =
     (let frame = GetDirectBufferAddress env buffer
      in invoke_process (WebRtcVad_Process V vad rate frame (int_div length' 2))
           (VadProcess vad rate frame (int_div length' 2)) s)"

section \<open>\<^verbatim>\<open>spokestack/jni/agc.cpp\<close>: the automatic gain control\<close>

definition Java_io_spokestack_spokestack_webrtc_AutomaticGainControl_create ::
    "'e webrtc_agc \<Rightarrow> jint \<Rightarrow> jint \<Rightarrow> jint \<Rightarrow> jboolean \<Rightarrow> 'e world \<Rightarrow> jlong \<times> 'e world" where
  "Java_io_spokestack_spokestack_webrtc_AutomaticGainControl_create A rate targetLeveldBFS
       compressionGaindB limiterEnable s =
     (case invoke_create (WebRtcAgc_Create A) AgcCreate s of (result, agc, s1) \<Rightarrow>
        if result = 0 then
          (case invoke (WebRtcAgc_Init A agc 0 100 (kAgcModeFixedDigital A) rate)
                  (AgcInit agc 0 100 (kAgcModeFixedDigital A) rate) s1 of (result, s2) \<Rightarrow>
             (case (if result = 0
                    then (let config = \<lparr>config_targetLevelDbfs = 0, config_compressionGaindB = 0,
                                        config_limiterEnable = 0\<rparr>;
                              config = config\<lparr>config_targetLevelDbfs := ucast targetLeveldBFS\<rparr>;
                              config = config\<lparr>config_limiterEnable :=
                                         ucast (if limiterEnable \<noteq> 0 then kAgcTrue A else kAgcFalse A)\<rparr>;
                              config = config\<lparr>config_compressionGaindB := ucast compressionGaindB\<rparr>
                          in invoke (WebRtcAgc_set_config A agc config) (AgcSetConfig agc config) s2)
                    else (result, s2)) of (result, s3) \<Rightarrow>
                if result \<noteq> 0
                then (0, invoke_void (WebRtcAgc_Free A agc) (AgcFree agc) s3)
                else (agc, s3)))
        else (agc, s1))"

definition Java_io_spokestack_spokestack_webrtc_AutomaticGainControl_destroy ::
    "'e webrtc_agc \<Rightarrow> jlong \<Rightarrow> 'e world \<Rightarrow> 'e world" where
  "Java_io_spokestack_spokestack_webrtc_AutomaticGainControl_destroy A agc s =
     invoke_void (WebRtcAgc_Free A agc) (AgcFree agc) s"

text \<open>
  \<^verbatim>\<open>miclevel\<close> is passed by value as \<^verbatim>\<open>inMicLevel\<close> and by address as \<^verbatim>\<open>outMicLevel\<close>; the
  local \<^verbatim>\<open>saturated\<close> (0 before the call) is passed by address and dropped at return;
  \<^verbatim>\<open>length / 2\<close> is converted to the \<^verbatim>\<open>int16_t\<close> parameter \<^verbatim>\<open>samples\<close>.
\<close>

definition Java_io_spokestack_spokestack_webrtc_AutomaticGainControl_process ::
    "'e webrtc_agc \<Rightarrow> jni_env \<Rightarrow> jlong \<Rightarrow> jobject \<Rightarrow> jint \<Rightarrow> 'e world \<Rightarrow> jint \<times> 'e world" where
  "Java_io_spokestack_spokestack_webrtc_AutomaticGainControl_process A env agc buffer length' s =
     (let frame = GetDirectBufferAddress env buffer;
          saturated = 0
      in case WebRtcAgc_Process A agc frame 0 (ucast (int_div length' 2)) frame 0 (miclevel s)
                (miclevel s) 0 saturated (engines s, memory s) of
           (r, outMicLevel, saturated, e', m') \<Rightarrow>
             (r, s\<lparr>engines := e', memory := m', miclevel := outMicLevel,
                   calls := calls s @
                     [AgcProcess agc frame 0 (ucast (int_div length' 2)) frame 0 (miclevel s) 0 r]\<rparr>))"

section \<open>\<^verbatim>\<open>jni/ans.cpp\<close>: the acoustic noise suppressor\<close>

definition Java_io_spokestack_spokestack_webrtc_AcousticNoiseSuppressor_create ::
    "'e webrtc_nsx \<Rightarrow> jint \<Rightarrow> jint \<Rightarrow> 'e world \<Rightarrow> jlong \<times> 'e world" where
  "Java_io_spokestack_spokestack_webrtc_AcousticNoiseSuppressor_create N sampleRate policy s =
     (case invoke_create (WebRtcNsx_Create N) NsxCreate s of (result, ans, s1) \<Rightarrow>
        if result = 0 then
          (case invoke (WebRtcNsx_Init N ans sampleRate) (NsxInit ans sampleRate) s1 of (result, s2) \<Rightarrow>
             (case (if result = 0
                    then invoke (WebRtcNsx_set_policy N ans policy) (NsxSetPolicy ans policy) s2
                    else (result, s2)) of (result, s3) \<Rightarrow>
                if result \<noteq> 0
                then (0, invoke_void (WebRtcNsx_Free N ans) (NsxFree ans) s3)
                else (ans, s3)))
        else (ans, s1))"

definition Java_io_spokestack_spokestack_webrtc_AcousticNoiseSuppressor_destroy ::
    "'e webrtc_nsx \<Rightarrow> jlong \<Rightarrow> 'e world \<Rightarrow> 'e world" where
  "Java_io_spokestack_spokestack_webrtc_AcousticNoiseSuppressor_destroy N ans s =
     invoke_void (WebRtcNsx_Free N ans) (NsxFree ans) s"

definition Java_io_spokestack_spokestack_webrtc_AcousticNoiseSuppressor_process ::
    "'e webrtc_nsx \<Rightarrow> jni_env \<Rightarrow> jlong \<Rightarrow> jobject \<Rightarrow> jint \<Rightarrow> 'e world \<Rightarrow> jint \<times> 'e world" where
  "Java_io_spokestack_spokestack_webrtc_AcousticNoiseSuppressor_process N env ans buffer offset s =
     (let frame = GetDirectBufferAddress env buffer;
          frame = int16_ptr_add frame (size_div offset sizeof_int16_t)
      in invoke_process (WebRtcNsx_Process N ans frame 0 frame 0)
           (NsxProcess ans frame 0 frame 0) s)"

section \<open>\<^verbatim>\<open>jni/vad.cpp\<close>: the libfvad binding with the rate fixed at creation\<close>

definition Java_com_pylon_spokestack_libfvad_VADTrigger_create ::
    "'e libfvad \<Rightarrow> jint \<Rightarrow> jint \<Rightarrow> 'e world \<Rightarrow> jlong \<times> 'e world" where
  "Java_com_pylon_spokestack_libfvad_VADTrigger_create F mode rate s =
     (case fvad_new F (engines s) of (vad, e1) \<Rightarrow>
        (let s1 = s\<lparr>engines := e1, calls := calls s @ [FvadNew vad]\<rparr>;
             s2 = snd (invoke (fvad_set_mode F vad mode) (FvadSetMode vad mode) s1);
             s3 = snd (invoke (fvad_set_sample_rate F vad rate) (FvadSetSampleRate vad rate) s2)
         in (vad, s3)))"

definition Java_com_pylon_spokestack_libfvad_VADTrigger_destroy ::
    "'e libfvad \<Rightarrow> jlong \<Rightarrow> 'e world \<Rightarrow> 'e world" where
  "Java_com_pylon_spokestack_libfvad_VADTrigger_destroy F vad s =
     invoke_void (fvad_free F vad) (FvadFree vad) s"

definition Java_com_pylon_spokestack_libfvad_VADTrigger_process ::
    "'e libfvad \<Rightarrow> jni_env \<Rightarrow> jlong \<Rightarrow> jobject \<Rightarrow> jint \<Rightarrow> 'e world \<Rightarrow> jint \<times> 'e world" where
  "Java_com_pylon_spokestack_libfvad_VADTrigger_process F env vad buffer length' s =
     (let frame = GetDirectBufferAddress env buffer
      in invoke_process (fvad_process F vad frame (int_div length' 2))
           (FvadProcess vad frame (int_div length' 2)) s)"

section \<open>Reading the trace\<close>

text \<open>The status a recorded call returned, for the entry points that return one.\<close>

fun status :: "call \<Rightarrow> jint option" where
  "status (VadCreate r p) = Some r"
| "status (VadInit p r) = Some r"
| "status (VadSetMode p m r) = Some r"
| "status (VadFree p) = None"
| "status (VadProcess p fs f n r) = Some r"
| "status (AgcCreate r p) = Some r"
| "status (AgcInit p lo hi m fs r) = Some r"
| "status (AgcSetConfig p c r) = Some r"
| "status (AgcFree p) = None"
| "status (AgcProcess p i ih n out oh lvl echo r) = Some r"
| "status (NsxCreate r p) = Some r"
| "status (NsxInit p fs r) = Some r"
| "status (NsxSetPolicy p m r) = Some r"
| "status (NsxFree p) = None"
| "status (NsxProcess p i ih out oh r) = Some r"
| "status (FvadNew p) = None"
| "status (FvadSetMode p m r) = Some r"
| "status (FvadSetSampleRate p fs r) = Some r"
| "status (FvadFree p) = None"
| "status (FvadProcess p f n r) = Some r"

text \<open>A sub-step failed: the call returned a status other than zero.\<close>

definition failed :: "call \<Rightarrow> bool" where
  "failed c = (case status c of None \<Rightarrow> False | Some r \<Rightarrow> r \<noteq> 0)"


text \<open>The configuration the AGC wrapper builds from its arguments.\<close>

definition agc_config :: "'e webrtc_agc \<Rightarrow> jint \<Rightarrow> jint \<Rightarrow> jboolean \<Rightarrow> WebRtcAgc_config_t" where
  "agc_config A targetLeveldBFS compressionGaindB limiterEnable =
     \<lparr>config_targetLevelDbfs = ucast targetLeveldBFS,
      config_compressionGaindB = ucast compressionGaindB,
      config_limiterEnable = ucast (if limiterEnable \<noteq> 0 then kAgcTrue A else kAgcFalse A)\<rparr>"


section \<open>Host programs\<close>

text \<open>
  The host reaches the wrappers through its native methods and nothing else. A host
  program is a list of native calls, with whatever arguments (a handle is any
  \<^verbatim>\<open>jlong\<close>); running it applies the wrappers in order and drops their results.
\<close>

datatype native_call =
    VoiceActivityDetector_create jint
  | VoiceActivityDetector_destroy jlong
  | VoiceActivityDetector_process jlong jint jobject jint
  | AutomaticGainControl_create jint jint jint jboolean
  | AutomaticGainControl_destroy jlong
  | AutomaticGainControl_process jlong jobject jint
  | AcousticNoiseSuppressor_create jint jint
  | AcousticNoiseSuppressor_destroy jlong
  | AcousticNoiseSuppressor_process jlong jobject jint
  | VADTrigger_create jint jint
  | VADTrigger_destroy jlong
  | VADTrigger_process jlong jobject jint

record 'e native_libs =
  vad_lib :: "'e webrtc_vad"
  agc_lib :: "'e webrtc_agc"
  nsx_lib :: "'e webrtc_nsx"
  fvad_lib :: "'e libfvad"

fun native :: "'e native_libs \<Rightarrow> jni_env \<Rightarrow> native_call \<Rightarrow> 'e world \<Rightarrow> 'e world" where
  "native L env (VoiceActivityDetector_create mode) s =
     snd (Java_io_spokestack_spokestack_webrtc_VoiceActivityDetector_create (vad_lib L) mode s)"
| "native L env (VoiceActivityDetector_destroy vad) s =
     Java_io_spokestack_spokestack_webrtc_VoiceActivityDetector_destroy (vad_lib L) vad s"
| "native L env (VoiceActivityDetector_process vad rate buffer length') s =
     snd (Java_io_spokestack_spokestack_webrtc_VoiceActivityDetector_process (vad_lib L) env vad rate
            buffer length' s)"
| "native L env (AutomaticGainControl_create rate targetLeveldBFS compressionGaindB limiterEnable) s =
     snd (Java_io_spokestack_spokestack_webrtc_AutomaticGainControl_create (agc_lib L) rate
            targetLeveldBFS compressionGaindB limiterEnable s)"
| "native L env (AutomaticGainControl_destroy agc) s =
     Java_io_spokestack_spokestack_webrtc_AutomaticGainControl_destroy (agc_lib L) agc s"
| "native L env (AutomaticGainControl_process agc buffer length') s =
     snd (Java_io_spokestack_spokestack_webrtc_AutomaticGainControl_process (agc_lib L) env agc buffer
            length' s)"
| "native L env (AcousticNoiseSuppressor_create sampleRate policy) s =
     snd (Java_io_spokestack_spokestack_webrtc_AcousticNoiseSuppressor_create (nsx_lib L) sampleRate
            policy s)"
| "native L env (AcousticNoiseSuppressor_destroy ans) s =
     Java_io_spokestack_spokestack_webrtc_AcousticNoiseSuppressor_destroy (nsx_lib L) ans s"
| "native L env (AcousticNoiseSuppressor_process ans buffer offset) s =
     snd (Java_io_spokestack_spokestack_webrtc_AcousticNoiseSuppressor_process (nsx_lib L) env ans
            buffer offset s)"
| "native L env (VADTrigger_create mode rate) s =
     snd (Java_com_pylon_spokestack_libfvad_VADTrigger_create (fvad_lib L) mode rate s)"
| "native L env (VADTrigger_destroy vad) s =
     Java_com_pylon_spokestack_libfvad_VADTrigger_destroy (fvad_lib L) vad s"
| "native L env (VADTrigger_process vad buffer length') s =
     snd (Java_com_pylon_spokestack_libfvad_VADTrigger_process (fvad_lib L) env vad buffer length' s)"

fun run :: "'e native_libs \<Rightarrow> jni_env \<Rightarrow> native_call list \<Rightarrow> 'e world \<Rightarrow> 'e world" where
  "run L env [] s = s"
| "run L env (c # cs) s = run L env cs (native L env c s)"

fun is_agc_process :: "native_call \<Rightarrow> bool" where
  "is_agc_process (AutomaticGainControl_process agc buffer length') = True"
| "is_agc_process c = False"

section \<open>What is assumed of the engines\<close>


section \<open>Stub engines\<close>

text \<open>
  Small engines on which the wrappers can be run. Their private state is the number of
  live instances, of which there can be two: the first is allocated at address 4096, the
  second at 4112. The detectors accept frames of 160 samples and call a frame voiced
  when its first byte is not zero; modes above 3 and policies above 2 are rejected.
\<close>

definition stub_vad :: "nat webrtc_vad" where
  "stub_vad = \<lparr>
     WebRtcVad_Create = (\<lambda>e. if 2 \<le> e then (- 1, 0, e) else (0, 4096 + 16 * word_of_nat e, e + 1)),
     WebRtcVad_Init = (\<lambda>p e. (0, e)),
     WebRtcVad_set_mode = (\<lambda>p mode e. (if mode \<le> 3 then 0 else - 1, e)),
     WebRtcVad_Free = (\<lambda>p e. e - 1),
     WebRtcVad_Process = (\<lambda>vad fs frame n (e, m).
       (if n = 160 then (if m frame = 0 then 0 else 1) else - 1, e, m))\<rparr>"

text \<open>
  The gain control stub leaves the samples as they are, reports speech once the level
  it is given exceeds 128, and raises the level by one on every frame it accepts.
\<close>

definition stub_agc :: "nat webrtc_agc" where
  "stub_agc = \<lparr>
     kAgcModeFixedDigital = 3,
     kAgcTrue = 1,
     kAgcFalse = 0,
     WebRtcAgc_Create = (\<lambda>e. if 2 \<le> e then (- 1, 0, e) else (0, 4096 + 16 * word_of_nat e, e + 1)),
     WebRtcAgc_Init = (\<lambda>p lo hi mode fs e. (if mode \<le> 3 then 0 else - 1, e)),
     WebRtcAgc_set_config = (\<lambda>p c e. (if config_compressionGaindB c \<le> 90 then 0 else - 1, e)),
     WebRtcAgc_Free = (\<lambda>p e. e - 1),
     WebRtcAgc_Process = (\<lambda>agc inNear inNear_H samples out out_H inMicLevel outMicLevel echo
         saturationWarning (e, m).
       if samples = 160
       then (if inMicLevel \<le> 128 then 0 else 1, inMicLevel + 1, 0, e, m)
       else (- 1, outMicLevel, saturationWarning, e, m))\<rparr>"


text \<open>The suppressor stub works on blocks of one sample, which it silences.\<close>

definition stub_nsx :: "nat webrtc_nsx" where
  "stub_nsx = \<lparr>
     WebRtcNsx_Create = (\<lambda>e. if 2 \<le> e then (- 1, 0, e) else (0, 4096 + 16 * word_of_nat e, e + 1)),
     WebRtcNsx_Init = (\<lambda>p fs e. (0, e)),
     WebRtcNsx_set_policy = (\<lambda>p policy e. (if policy \<le> 2 then 0 else - 1, e)),
     WebRtcNsx_Free = (\<lambda>p e. e - 1),
     WebRtcNsx_Process = (\<lambda>ans inFrame inFrame_H outFrame outFrame_H (e, m).
       if ans = 0 then (- 1, e, m) else (0, e, m(outFrame := 0, outFrame + 1 := 0)))\<rparr>"

text \<open>
  The libfvad stub follows the library's documentation: \<^verbatim>\<open>fvad_set_mode\<close> returns -1 for a
  mode outside 0..3 and \<^verbatim>\<open>fvad_set_sample_rate\<close> returns -1 for a rate other than 8000,
  16000, 32000 and 48000 Hz.
\<close>

definition stub_fvad :: "nat libfvad" where
  "stub_fvad = \<lparr>
     fvad_new = (\<lambda>e. if 2 \<le> e then (0, e) else (4096 + 16 * word_of_nat e, e + 1)),
     fvad_set_mode = (\<lambda>p mode e. (if mode \<le> 3 then 0 else - 1, e)),
     fvad_set_sample_rate = (\<lambda>p rate e.
       (if rate = 8000 \<or> rate = 16000 \<or> rate = 32000 \<or> rate = 48000 then 0 else - 1, e)),
     fvad_free = (\<lambda>p e. e - 1),
     fvad_process = (\<lambda>vad frame n (e, m).
       (if n = 160 then (if m frame = 0 then 0 else 1) else - 1, e, m))\<rparr>"

text \<open>A process at its start, with no instance allocated and all memory silent.\<close>

definition stub_start :: "nat world" where
  "stub_start = process_start 0 (\<lambda>a. 0)"

text \<open>The direct buffer of the stub environment starts at address 8192.\<close>

definition stub_env :: jni_env where
  "stub_env = \<lparr>GetDirectBufferAddress = (\<lambda>b. 8192)\<rparr>"

text \<open>The four stubs together, and a process in which two gain controls were created.\<close>

definition stub_libs :: "nat native_libs" where
  "stub_libs = \<lparr>vad_lib = stub_vad, agc_lib = stub_agc, nsx_lib = stub_nsx, fvad_lib = stub_fvad\<rparr>"

definition stub_two_handles :: "nat world" where
  "stub_two_handles =
     run stub_libs stub_env
       [AutomaticGainControl_create 16000 3 9 1, AutomaticGainControl_create 16000 3 9 1] stub_start"

section \<open>The create operations, case by case\<close>

lemmas invoke_defs = invoke_create_def invoke_def invoke_void_def invoke_process_def

lemma vad_create_result:
  assumes "WebRtcVad_Create V (engines s) = (r1, p, e1)"
    and "WebRtcVad_Init V p e1 = (r2, e2)"
    and "WebRtcVad_set_mode V p mode e2 = (r3, e3)"
  shows "Java_io_spokestack_spokestack_webrtc_VoiceActivityDetector_create V mode s =
     (if r1 \<noteq> 0 then (p, s\<lparr>engines := e1, calls := calls s @ [VadCreate r1 p]\<rparr>)
      else if r2 \<noteq> 0 then
        (0, s\<lparr>engines := WebRtcVad_Free V p e2,
              calls := calls s @ [VadCreate 0 p, VadInit p r2, VadFree p]\<rparr>)
      else if r3 \<noteq> 0 then
        (0, s\<lparr>engines := WebRtcVad_Free V p e3,
              calls := calls s @ [VadCreate 0 p, VadInit p 0, VadSetMode p mode r3, VadFree p]\<rparr>)
      else (p, s\<lparr>engines := e3,
                 calls := calls s @ [VadCreate 0 p, VadInit p 0, VadSetMode p mode 0]\<rparr>))"
  using assms
  by (simp add: Java_io_spokestack_spokestack_webrtc_VoiceActivityDetector_create_def invoke_defs)

lemma agc_create_result:
  assumes "WebRtcAgc_Create A (engines s) = (r1, p, e1)"
    and "WebRtcAgc_Init A p 0 100 (kAgcModeFixedDigital A) rate e1 = (r2, e2)"
    and "WebRtcAgc_set_config A p (agc_config A t g l) e2 = (r3, e3)"
  shows "Java_io_spokestack_spokestack_webrtc_AutomaticGainControl_create A rate t g l s =
     (if r1 \<noteq> 0 then (p, s\<lparr>engines := e1, calls := calls s @ [AgcCreate r1 p]\<rparr>)
      else if r2 \<noteq> 0 then
        (0, s\<lparr>engines := WebRtcAgc_Free A p e2,
              calls := calls s @ [AgcCreate 0 p, AgcInit p 0 100 (kAgcModeFixedDigital A) rate r2,
                AgcFree p]\<rparr>)
      else if r3 \<noteq> 0 then
        (0, s\<lparr>engines := WebRtcAgc_Free A p e3,
              calls := calls s @ [AgcCreate 0 p, AgcInit p 0 100 (kAgcModeFixedDigital A) rate 0,
                AgcSetConfig p (agc_config A t g l) r3, AgcFree p]\<rparr>)
      else (p, s\<lparr>engines := e3,
                 calls := calls s @ [AgcCreate 0 p, AgcInit p 0 100 (kAgcModeFixedDigital A) rate 0,
                   AgcSetConfig p (agc_config A t g l) 0]\<rparr>))"
  using assms
  by (simp add: Java_io_spokestack_spokestack_webrtc_AutomaticGainControl_create_def invoke_defs
      agc_config_def)

lemma nsx_create_result:
  assumes "WebRtcNsx_Create N (engines s) = (r1, p, e1)"
    and "WebRtcNsx_Init N p rate e1 = (r2, e2)"
    and "WebRtcNsx_set_policy N p policy e2 = (r3, e3)"
  shows "Java_io_spokestack_spokestack_webrtc_AcousticNoiseSuppressor_create N rate policy s =
     (if r1 \<noteq> 0 then (p, s\<lparr>engines := e1, calls := calls s @ [NsxCreate r1 p]\<rparr>)
      else if r2 \<noteq> 0 then
        (0, s\<lparr>engines := WebRtcNsx_Free N p e2,
              calls := calls s @ [NsxCreate 0 p, NsxInit p rate r2, NsxFree p]\<rparr>)
      else if r3 \<noteq> 0 then
        (0, s\<lparr>engines := WebRtcNsx_Free N p e3,
              calls := calls s @ [NsxCreate 0 p, NsxInit p rate 0, NsxSetPolicy p policy r3,
                NsxFree p]\<rparr>)
      else (p, s\<lparr>engines := e3,
                 calls := calls s @ [NsxCreate 0 p, NsxInit p rate 0, NsxSetPolicy p policy 0]\<rparr>))"
  using assms
  by (simp add: Java_io_spokestack_spokestack_webrtc_AcousticNoiseSuppressor_create_def invoke_defs)







lemmas stub_defs = stub_vad_def stub_agc_def stub_nsx_def stub_fvad_def stub_start_def
  stub_env_def process_start_def


section \<open>The libfvad binding's create operation\<close>

text \<open>
  \<^verbatim>\<open>VADTrigger_create\<close> calls \<^verbatim>\<open>fvad_new\<close>, \<^verbatim>\<open>fvad_set_mode\<close> and \<^verbatim>\<open>fvad_set_sample_rate\<close>
  one after the other, whatever they return, and returns the pointer \<^verbatim>\<open>fvad_new\<close> gave:
  no status is read and \<^verbatim>\<open>fvad_free\<close> is never called.
\<close>

lemma VADTrigger_create_calls:
  "\<exists>vad r2 r3. Java_com_pylon_spokestack_libfvad_VADTrigger_create F mode rate s =
     (vad, snd (Java_com_pylon_spokestack_libfvad_VADTrigger_create F mode rate s)) \<and>
     vad = fst (fvad_new F (engines s)) \<and>
     calls (snd (Java_com_pylon_spokestack_libfvad_VADTrigger_create F mode rate s)) =
       calls s @ [FvadNew vad, FvadSetMode vad mode r2, FvadSetSampleRate vad rate r3]"
  by (simp add: Java_com_pylon_spokestack_libfvad_VADTrigger_create_def invoke_defs Let_def
      split: prod.splits)

text \<open>
  C2. The libfvad binding's create operation does not follow the all-or-nothing policy
  of the primary binding. With mode 7, which \<^verbatim>\<open>fvad_set_mode\<close> rejects, it returns the
  handle 4096 and releases nothing, where the primary binding returns the null handle
  for the same rejected mode; and when \<^verbatim>\<open>fvad_new\<close> returns null, the two setters are
  still called, on the null instance.
\<close>

theorem VADTrigger_create_returns_handle_after_failed_step:
  "fst (Java_com_pylon_spokestack_libfvad_VADTrigger_create stub_fvad 7 16000 stub_start) = 4096 \<and>
   calls (snd (Java_com_pylon_spokestack_libfvad_VADTrigger_create stub_fvad 7 16000 stub_start)) =
     [FvadNew 4096, FvadSetMode 4096 7 (- 1), FvadSetSampleRate 4096 16000 0] \<and>
   failed (FvadSetMode 4096 7 (- 1)) \<and>
   fst (Java_io_spokestack_spokestack_webrtc_VoiceActivityDetector_create stub_vad 7 stub_start) = 0 \<and>
   fst (Java_com_pylon_spokestack_libfvad_VADTrigger_create stub_fvad 2 16000
          (stub_start\<lparr>engines := 2\<rparr>)) = 0 \<and>
   calls (snd (Java_com_pylon_spokestack_libfvad_VADTrigger_create stub_fvad 2 16000
          (stub_start\<lparr>engines := 2\<rparr>))) =
     [FvadNew 0, FvadSetMode 0 2 0, FvadSetSampleRate 0 16000 0]"
  by (simp add: failed_def stub_defs invoke_defs
      Java_com_pylon_spokestack_libfvad_VADTrigger_create_def
      Java_io_spokestack_spokestack_webrtc_VoiceActivityDetector_create_def)

section \<open>Byte counts and byte offsets as sample counts\<close>

text \<open>
  \<^verbatim>\<open>length / 2\<close> never overflows and is the quotient truncated toward zero; for a length
  that is not negative this is the floor. \<^verbatim>\<open>frame += offset / sizeof(int16_t)\<close> moves
  the address by \<open>2 * \<lfloor>offset / 2\<rfloor>\<close> bytes modulo \<open>2^64\<close>, for a negative offset too:
  the unsigned division of the sign-extended offset clears its lowest bit once doubled.
\<close>

lemma sint_jint_bounds: "- (2 ^ 31) \<le> sint (x :: jint) \<and> sint x < 2 ^ 31"
  using sint_ge [of x] sint_lt [of x] by simp

lemma sdiv2_bounds:
  fixes k :: int
  assumes "- (2 ^ 31) \<le> k" "k < 2 ^ 31"
  shows "- (2 ^ 31) \<le> k sdiv 2 \<and> k sdiv 2 < 2 ^ 31"
  using assms by (auto simp: signed_divide_int_def sgn_if)

lemma sint_word_of_int_jint:
  assumes "- (2 ^ 31) \<le> k" "k < 2 ^ 31"
  shows "sint (word_of_int k :: jint) = k"
  using assms by (simp add: int_word_sint)

lemma sint_int_div_2: "sint (int_div x 2) = sint x sdiv 2"
proof -
  have b: "- (2 ^ 31) \<le> sint x sdiv 2 \<and> sint x sdiv 2 < 2 ^ 31"
    using sint_jint_bounds [of x] by (intro sdiv2_bounds) auto
  then show ?thesis by (simp add: int_div_def sint_word_of_int_jint)
qed

lemma sdiv2_nonneg: "0 \<le> (k :: int) \<Longrightarrow> k sdiv 2 = k div 2"
  by (simp add: signed_divide_int_def sgn_if)

lemma two_times_div_two_word: "(2 :: 'a :: len word) * (y div 2) = y - y mod 2"
  by (metis add_diff_cancel_right' mult_div_mod_eq)


lemma scast_jint_size_t: "(scast (x :: jint) :: size_t) = word_of_int (sint x)"
  by (rule scast_eq)

lemma word_mod_2_of_int: "(word_of_int k :: size_t) mod 2 = word_of_int (k mod 2)"
proof -
  have "(word_of_int k :: size_t) mod 2 = of_bool (odd (word_of_int k :: size_t))"
    by (rule mod_2_eq_odd)
  also have "\<dots> = of_bool (odd k)"
    by (simp only: even_of_int_iff)
  also have "\<dots> = word_of_int (of_bool (odd k))"
    by (simp only: of_int_of_bool)
  also have "of_bool (odd k) = k mod 2"
    by (rule mod_2_eq_odd [symmetric])
  finally show ?thesis .
qed

lemma two_times_scast_div_two:
  "(2 :: size_t) * ((scast (x :: jint) :: size_t) div 2) = word_of_int (2 * (sint x div 2))"
proof -
  have i: "2 * (sint x div 2) = sint x - sint x mod 2"
    by (simp add: minus_mod_eq_mult_div)
  have "(2 :: size_t) * ((scast x :: size_t) div 2) = scast x - (scast x :: size_t) mod 2"
    by (rule two_times_div_two_word)
  also have "\<dots> = word_of_int (sint x) - word_of_int (sint x mod 2)"
    by (simp only: scast_jint_size_t word_mod_2_of_int)
  also have "\<dots> = word_of_int (sint x - sint x mod 2)"
    by (simp only: of_int_diff)
  finally show ?thesis
    by (simp only: i)
qed

lemma ptr_floor:
  "int16_ptr_add p (size_div x sizeof_int16_t) = p + word_of_int (2 * (sint x div 2))"
  by (simp only: int16_ptr_add_def size_div_def sizeof_int16_t_def two_times_scast_div_two)

lemma sint_minus_one_odd:
  assumes "odd (sint (x :: jint))"
  shows "sint (x - 1) = sint x - 1"
proof -
  have "sint x \<noteq> - (2 ^ 31)"
    using assms by auto
  then have b: "- (2 ^ 31) \<le> sint x - 1" "sint x - 1 < 2 ^ 31"
    using sint_jint_bounds [of x] by simp_all
  have "x - 1 = word_of_int (sint x - 1)"
    by simp
  then show ?thesis
    using sint_word_of_int_jint [OF b] by simp
qed

lemma int_div_odd:
  assumes "0 \<le> sint x" and "odd (sint x)"
  shows "int_div x 2 = int_div (x - 1) 2"
proof -
  have "0 \<le> sint x - 1"
    using assms by (cases "sint x = 0") auto
  moreover have "(sint x - 1) div 2 = sint x div 2"
    using assms(2) by presburger
  ultimately show ?thesis
    using assms by (simp add: int_div_def sint_minus_one_odd sdiv2_nonneg)
qed

lemma size_div_odd:
  assumes "odd (sint x)"
  shows "int16_ptr_add p (size_div x sizeof_int16_t) = int16_ptr_add p (size_div (x - 1) sizeof_int16_t)"
proof -
  have "(sint x - 1) div 2 = sint x div 2"
    using assms by presburger
  moreover have "sint (x - 1) = sint x - 1"
    using assms by (rule sint_minus_one_odd)
  ultimately have "sint (x - 1) div 2 = sint x div 2"
    by simp
  then show ?thesis
    by (simp only: ptr_floor)
qed

lemma ptr_even:
  assumes "even (sint x)"
  shows "int16_ptr_add p (size_div x sizeof_int16_t) = p + scast x"
proof -
  have "2 * (sint x div 2) = sint x"
    using assms by presburger
  then show ?thesis
    by (simp only: ptr_floor scast_jint_size_t)
qed

lemma ptr_odd:
  assumes "odd (sint x)"
  shows "int16_ptr_add p (size_div x sizeof_int16_t) = p + scast x - 1"
proof -
  have "2 * (sint x div 2) = sint x - 1"
    using assms by presburger
  then have "int16_ptr_add p (size_div x sizeof_int16_t) = p + word_of_int (sint x - 1)"
    by (simp only: ptr_floor)
  also have "word_of_int (sint x - 1) = (scast x :: size_t) - 1"
    by (simp only: scast_jint_size_t of_int_diff of_int_1)
  finally show ?thesis
    by (simp only: add_diff_eq)
qed

section \<open>The process operations\<close>

lemmas process_defs =
  Java_io_spokestack_spokestack_webrtc_VoiceActivityDetector_process_def
  Java_io_spokestack_spokestack_webrtc_AutomaticGainControl_process_def
  Java_io_spokestack_spokestack_webrtc_AcousticNoiseSuppressor_process_def
  Java_com_pylon_spokestack_libfvad_VADTrigger_process_def

lemma vad_process_eq:
  assumes "WebRtcVad_Process V vad rate (GetDirectBufferAddress env buffer) (int_div length' 2)
             (engines s, memory s) = (r, e', m')"
  shows "Java_io_spokestack_spokestack_webrtc_VoiceActivityDetector_process V env vad rate buffer
           length' s =
         (r, s\<lparr>engines := e', memory := m', calls := calls s @
            [VadProcess vad rate (GetDirectBufferAddress env buffer) (int_div length' 2) r]\<rparr>)"
  using assms by (simp add: process_defs invoke_defs Let_def)

lemma agc_process_eq:
  assumes "WebRtcAgc_Process A agc (GetDirectBufferAddress env buffer) 0 (ucast (int_div length' 2))
             (GetDirectBufferAddress env buffer) 0 (miclevel s) (miclevel s) 0 0
             (engines s, memory s) = (r, lvl, sat, e', m')"
  shows "Java_io_spokestack_spokestack_webrtc_AutomaticGainControl_process A env agc buffer
           length' s =
         (r, s\<lparr>engines := e', memory := m', miclevel := lvl, calls := calls s @
            [AgcProcess agc (GetDirectBufferAddress env buffer) 0 (ucast (int_div length' 2))
               (GetDirectBufferAddress env buffer) 0 (miclevel s) 0 r]\<rparr>)"
  using assms by (simp add: process_defs invoke_defs Let_def)

lemma ans_process_eq:
  assumes "frame = int16_ptr_add (GetDirectBufferAddress env buffer) (size_div offset sizeof_int16_t)"
    and "WebRtcNsx_Process N ans frame 0 frame 0 (engines s, memory s) = (r, e', m')"
  shows "Java_io_spokestack_spokestack_webrtc_AcousticNoiseSuppressor_process N env ans buffer
           offset s =
         (r, s\<lparr>engines := e', memory := m', calls := calls s @
            [NsxProcess ans frame 0 frame 0 r]\<rparr>)"
  using assms by (simp add: process_defs invoke_defs Let_def)

lemma stub_int_div: "int_div 320 2 = 160" "int_div 100 2 = 50" "int_div (- 3) 2 = - 1"
  by (simp_all add: int_div_def signed_divide_int_def)

text \<open>
  C4. The voice activity detector's process operation makes one engine call, on the
  frame's address with the byte length divided by two (the quotient truncated toward
  zero, which cannot overflow) as the sample count and the caller's rate, and returns
  the status of that call unchanged; the engine's state and the memory are as the
  engine left them. On the stub detector a silent frame of 320 bytes gives 0, a frame
  that is not silent gives 1, and a frame of 100 bytes, a length the stub rejects,
  gives -1.
\<close>

theorem vad_process_result:
  "(case Java_io_spokestack_spokestack_webrtc_VoiceActivityDetector_process V env vad rate buffer
          length' s of
      (r, s') \<Rightarrow>
        (r, engines s', memory s') =
          WebRtcVad_Process V vad rate (GetDirectBufferAddress env buffer) (int_div length' 2)
            (engines s, memory s) \<and>
        calls s' = calls s @
          [VadProcess vad rate (GetDirectBufferAddress env buffer) (int_div length' 2) r] \<and>
        miclevel s' = miclevel s) \<and>
   sint (int_div length' 2) = sint length' sdiv 2 \<and>
   fst (Java_io_spokestack_spokestack_webrtc_VoiceActivityDetector_process stub_vad stub_env 4096
          16000 0 320 (stub_start\<lparr>memory := (\<lambda>a. 0)\<rparr>)) = 0 \<and>
   fst (Java_io_spokestack_spokestack_webrtc_VoiceActivityDetector_process stub_vad stub_env 4096
          16000 0 320 (stub_start\<lparr>memory := (\<lambda>a. 9)\<rparr>)) = 1 \<and>
   fst (Java_io_spokestack_spokestack_webrtc_VoiceActivityDetector_process stub_vad stub_env 4096
          16000 0 100 (stub_start\<lparr>memory := (\<lambda>a. 9)\<rparr>)) = - 1"
proof -
  obtain r e' m' where p: "WebRtcVad_Process V vad rate (GetDirectBufferAddress env buffer)
      (int_div length' 2) (engines s, memory s) = (r, e', m')"
    by (cases "WebRtcVad_Process V vad rate (GetDirectBufferAddress env buffer)
      (int_div length' 2) (engines s, memory s)")
  have general: "case Java_io_spokestack_spokestack_webrtc_VoiceActivityDetector_process V env vad
          rate buffer length' s of
      (r, s') \<Rightarrow>
        (r, engines s', memory s') =
          WebRtcVad_Process V vad rate (GetDirectBufferAddress env buffer) (int_div length' 2)
            (engines s, memory s) \<and>
        calls s' = calls s @
          [VadProcess vad rate (GetDirectBufferAddress env buffer) (int_div length' 2) r] \<and>
        miclevel s' = miclevel s"
    by (simp add: vad_process_eq [OF p] p)
  have runs: "fst (Java_io_spokestack_spokestack_webrtc_VoiceActivityDetector_process stub_vad stub_env 4096
          16000 0 320 (stub_start\<lparr>memory := (\<lambda>a. 0)\<rparr>)) = 0 \<and>
   fst (Java_io_spokestack_spokestack_webrtc_VoiceActivityDetector_process stub_vad stub_env 4096
          16000 0 320 (stub_start\<lparr>memory := (\<lambda>a. 9)\<rparr>)) = 1 \<and>
   fst (Java_io_spokestack_spokestack_webrtc_VoiceActivityDetector_process stub_vad stub_env 4096
          16000 0 100 (stub_start\<lparr>memory := (\<lambda>a. 9)\<rparr>)) = - 1"
    by (simp add: process_defs invoke_defs stub_defs stub_int_div)
  show ?thesis
    using general runs sint_int_div_2 [of length'] by simp
qed

text \<open>
  C5. The noise suppressor's process operation makes one engine call. The frame pointer
  is the buffer's address moved by \<open>offset / sizeof(int16_t)\<close> samples, that is by
  \<open>2 * \<lfloor>offset / 2\<rfloor>\<close> bytes; the engine receives this one address as input and as
  output, with null high-band pointers, and its status is returned unchanged.
\<close>

theorem ans_process_result:
  "(case Java_io_spokestack_spokestack_webrtc_AcousticNoiseSuppressor_process N env ans buffer
          offset s of
      (r, s') \<Rightarrow>
        (\<exists>frame. frame = GetDirectBufferAddress env buffer + word_of_int (2 * (sint offset div 2)) \<and>
           (r, engines s', memory s') = WebRtcNsx_Process N ans frame 0 frame 0 (engines s, memory s) \<and>
           calls s' = calls s @ [NsxProcess ans frame 0 frame 0 r] \<and>
           miclevel s' = miclevel s))"
proof -
  define frame where "frame = int16_ptr_add (GetDirectBufferAddress env buffer)
    (size_div offset sizeof_int16_t)"
  obtain r e' m' where p: "WebRtcNsx_Process N ans frame 0 frame 0 (engines s, memory s) = (r, e', m')"
    by (cases "WebRtcNsx_Process N ans frame 0 frame 0 (engines s, memory s)")
  have f: "frame = GetDirectBufferAddress env buffer + word_of_int (2 * (sint offset div 2))"
    unfolding frame_def by (rule ptr_floor)
  show ?thesis
    using p f by (simp add: ans_process_eq [OF frame_def p])
qed

section \<open>The microphone level\<close>

lemmas create_defs =
  Java_io_spokestack_spokestack_webrtc_VoiceActivityDetector_create_def
  Java_io_spokestack_spokestack_webrtc_AutomaticGainControl_create_def
  Java_io_spokestack_spokestack_webrtc_AcousticNoiseSuppressor_create_def
  Java_com_pylon_spokestack_libfvad_VADTrigger_create_def

lemmas destroy_defs =
  Java_io_spokestack_spokestack_webrtc_VoiceActivityDetector_destroy_def
  Java_io_spokestack_spokestack_webrtc_AutomaticGainControl_destroy_def
  Java_io_spokestack_spokestack_webrtc_AcousticNoiseSuppressor_destroy_def
  Java_com_pylon_spokestack_libfvad_VADTrigger_destroy_def

lemma miclevel_invoke [simp]:
  "miclevel (snd (snd (invoke_create f ev s))) = miclevel s"
  "miclevel (snd (invoke g ev' s)) = miclevel s"
  "miclevel (invoke_void h ev'' s) = miclevel s"
  "miclevel (snd (invoke_process k ev' s)) = miclevel s"
  by (simp_all add: invoke_defs split: prod.splits)

lemma vad_create_miclevel:
  "miclevel (snd (Java_io_spokestack_spokestack_webrtc_VoiceActivityDetector_create V mode s)) = miclevel s"
proof -
  obtain r1 p e1 where c: "WebRtcVad_Create V (engines s) = (r1, p, e1)"
    by (cases "WebRtcVad_Create V (engines s)")
  obtain r2 e2 where i: "WebRtcVad_Init V p e1 = (r2, e2)"
    by (cases "WebRtcVad_Init V p e1")
  obtain r3 e3 where m: "WebRtcVad_set_mode V p mode e2 = (r3, e3)"
    by (cases "WebRtcVad_set_mode V p mode e2")
  show ?thesis
    by (simp add: vad_create_result [OF c i m])
qed

lemma agc_create_miclevel:
  "miclevel (snd (Java_io_spokestack_spokestack_webrtc_AutomaticGainControl_create A rate t g l s)) = miclevel s"
proof -
  obtain r1 p e1 where c: "WebRtcAgc_Create A (engines s) = (r1, p, e1)"
    by (cases "WebRtcAgc_Create A (engines s)")
  obtain r2 e2 where i: "WebRtcAgc_Init A p 0 100 (kAgcModeFixedDigital A) rate e1 = (r2, e2)"
    by (cases "WebRtcAgc_Init A p 0 100 (kAgcModeFixedDigital A) rate e1")
  obtain r3 e3 where m: "WebRtcAgc_set_config A p (agc_config A t g l) e2 = (r3, e3)"
    by (cases "WebRtcAgc_set_config A p (agc_config A t g l) e2")
  show ?thesis
    by (simp add: agc_create_result [OF c i m])
qed

lemma nsx_create_miclevel:
  "miclevel (snd (Java_io_spokestack_spokestack_webrtc_AcousticNoiseSuppressor_create N rate policy s)) = miclevel s"
proof -
  obtain r1 p e1 where c: "WebRtcNsx_Create N (engines s) = (r1, p, e1)"
    by (cases "WebRtcNsx_Create N (engines s)")
  obtain r2 e2 where i: "WebRtcNsx_Init N p rate e1 = (r2, e2)"
    by (cases "WebRtcNsx_Init N p rate e1")
  obtain r3 e3 where m: "WebRtcNsx_set_policy N p policy e2 = (r3, e3)"
    by (cases "WebRtcNsx_set_policy N p policy e2")
  show ?thesis
    by (simp add: nsx_create_result [OF c i m])
qed

lemma fvad_create_miclevel:
  "miclevel (snd (Java_com_pylon_spokestack_libfvad_VADTrigger_create F mode rate s)) = miclevel s"
  by (simp add: Java_com_pylon_spokestack_libfvad_VADTrigger_create_def Let_def split: prod.splits)

lemma destroy_miclevel:
  "miclevel (Java_io_spokestack_spokestack_webrtc_VoiceActivityDetector_destroy V h s) = miclevel s"
  "miclevel (Java_io_spokestack_spokestack_webrtc_AutomaticGainControl_destroy A h s) = miclevel s"
  "miclevel (Java_io_spokestack_spokestack_webrtc_AcousticNoiseSuppressor_destroy N h s) = miclevel s"
  "miclevel (Java_com_pylon_spokestack_libfvad_VADTrigger_destroy F h s) = miclevel s"
  by (simp_all add: destroy_defs)

lemma process_miclevel:
  "miclevel (snd (Java_io_spokestack_spokestack_webrtc_VoiceActivityDetector_process V env h rate b n s)) = miclevel s"
  "miclevel (snd (Java_io_spokestack_spokestack_webrtc_AcousticNoiseSuppressor_process N env h b n s)) = miclevel s"
  "miclevel (snd (Java_com_pylon_spokestack_libfvad_VADTrigger_process F env h b n s)) = miclevel s"
  by (simp_all add: process_defs Let_def)

lemma native_miclevel:
  assumes "\<not> is_agc_process c"
  shows "miclevel (native L env c s) = miclevel s"
  using assms
  by (cases c)
    (simp_all add: vad_create_miclevel agc_create_miclevel nsx_create_miclevel fvad_create_miclevel
      destroy_miclevel process_miclevel)

lemma run_miclevel:
  assumes "\<forall>c\<in>set cs. \<not> is_agc_process c"
  shows "miclevel (run L env cs s) = miclevel s"
  using assms
proof (induction cs arbitrary: s)
  case Nil
  then show ?case by simp
next
  case (Cons c cs)
  then have "miclevel (run L env cs (native L env c s)) = miclevel (native L env c s)"
    by simp
  also have "\<dots> = miclevel s"
    using Cons.prems by (simp add: native_miclevel)
  finally show ?case by simp
qed

text \<open>
  C10. The microphone level is 128 at process start. Creating and destroying a gain
  control leave it as it is, and so does every host program with no call of the gain
  control's process operation, whatever else it creates, processes or destroys.
\<close>

theorem miclevel_only_changed_by_agc_process:
  assumes "\<forall>c\<in>set cs. \<not> is_agc_process c"
  shows "miclevel (process_start e m) = 128 \<and>
    miclevel (snd (Java_io_spokestack_spokestack_webrtc_AutomaticGainControl_create A rate
      targetLeveldBFS compressionGaindB limiterEnable s)) = miclevel s \<and>
    miclevel (Java_io_spokestack_spokestack_webrtc_AutomaticGainControl_destroy A agc s) = miclevel s \<and>
    miclevel (run L env cs s) = miclevel s"
  using assms by (simp add: run_miclevel agc_create_miclevel destroy_miclevel process_start_def)

lemmas run_defs = stub_libs_def stub_two_handles_def create_defs destroy_defs process_defs
  invoke_defs stub_defs stub_int_div

text \<open>
  On the stubs: a gain control is created and processes one frame, which raises the
  level to 129; the handle is destroyed, a new one is created and the detector runs,
  and the level is still 129.
\<close>

theorem miclevel_only_changed_by_agc_process_witness:
  "list_all (\<lambda>c. \<not> is_agc_process c)
     [AutomaticGainControl_destroy 4096, AutomaticGainControl_create 16000 3 9 1,
      VoiceActivityDetector_process 4096 16000 0 320] \<and>
   miclevel (run stub_libs stub_env
     [AutomaticGainControl_create 16000 3 9 1, AutomaticGainControl_process 4096 0 320] stub_start) = 129 \<and>
   miclevel (run stub_libs stub_env
     [AutomaticGainControl_destroy 4096, AutomaticGainControl_create 16000 3 9 1,
      VoiceActivityDetector_process 4096 16000 0 320]
     (run stub_libs stub_env
       [AutomaticGainControl_create 16000 3 9 1, AutomaticGainControl_process 4096 0 320] stub_start))
     = 129"
proof -
  let ?cs = "[AutomaticGainControl_destroy 4096, AutomaticGainControl_create 16000 3 9 1,
      VoiceActivityDetector_process 4096 16000 0 320]"
  let ?s = "run stub_libs stub_env
       [AutomaticGainControl_create 16000 3 9 1, AutomaticGainControl_process 4096 0 320] stub_start"
  have h: "\<forall>c\<in>set ?cs. \<not> is_agc_process c"
    by simp
  have l: "miclevel ?s = 129"
    by (simp add: run_defs)
  have "miclevel (run stub_libs stub_env ?cs ?s) = miclevel ?s"
    by (rule miclevel_only_changed_by_agc_process
        [OF h, THEN conjunct2, THEN conjunct2, THEN conjunct2])
  with l show ?thesis
    by simp
qed

text \<open>
  C3. Every call of the gain control's process operation hands the engine the content
  of the one variable \<^verbatim>\<open>miclevel\<close> as the level, whatever the handle, and stores the level
  the engine returns in that same variable: of two calls in a row, on any two handles,
  the second receives what the first left. With the stub engine, which keeps no state
  of its own across process calls, the handle 4096 reports 0 on a frame when it is the
  first to process, and 1 on the same frame after the other handle 4112 has processed
  one: the only thing that call changed is the level.
\<close>

theorem agc_miclevel_shared:
  "(case Java_io_spokestack_spokestack_webrtc_AutomaticGainControl_process A env agc1 buffer1
           length1 s of
      (r1, s1) \<Rightarrow>
        case Java_io_spokestack_spokestack_webrtc_AutomaticGainControl_process A env agc2 buffer2
               length2 s1 of
          (r2, s2) \<Rightarrow>
            calls s2 = calls s @
              [AgcProcess agc1 (GetDirectBufferAddress env buffer1) 0 (ucast (int_div length1 2))
                 (GetDirectBufferAddress env buffer1) 0 (miclevel s) 0 r1,
               AgcProcess agc2 (GetDirectBufferAddress env buffer2) 0 (ucast (int_div length2 2))
                 (GetDirectBufferAddress env buffer2) 0 (miclevel s1) 0 r2] \<and>
            miclevel s1 = fst (snd (WebRtcAgc_Process A agc1 (GetDirectBufferAddress env buffer1) 0
              (ucast (int_div length1 2)) (GetDirectBufferAddress env buffer1) 0 (miclevel s) (miclevel s) 0 0
              (engines s, memory s))) \<and>
            (r2, miclevel s2) = (case WebRtcAgc_Process A agc2 (GetDirectBufferAddress env buffer2) 0
              (ucast (int_div length2 2)) (GetDirectBufferAddress env buffer2) 0 (miclevel s1) (miclevel s1) 0 0
              (engines s1, memory s1) of (r, lvl, rest) \<Rightarrow> (r, lvl))) \<and>
   calls stub_two_handles =
     [AgcCreate 0 4096, AgcInit 4096 0 100 3 16000 0,
      AgcSetConfig 4096 \<lparr>config_targetLevelDbfs = 3, config_compressionGaindB = 9,
        config_limiterEnable = 1\<rparr> 0,
      AgcCreate 0 4112, AgcInit 4112 0 100 3 16000 0,
      AgcSetConfig 4112 \<lparr>config_targetLevelDbfs = 3, config_compressionGaindB = 9,
        config_limiterEnable = 1\<rparr> 0] \<and>
   fst (Java_io_spokestack_spokestack_webrtc_AutomaticGainControl_process stub_agc stub_env 4096 0 320
          stub_two_handles) = 0 \<and>
   fst (Java_io_spokestack_spokestack_webrtc_AutomaticGainControl_process stub_agc stub_env 4096 0 320
          (snd (Java_io_spokestack_spokestack_webrtc_AutomaticGainControl_process stub_agc stub_env
                  4112 0 320 stub_two_handles))) = 1 \<and>
   engines (snd (Java_io_spokestack_spokestack_webrtc_AutomaticGainControl_process stub_agc stub_env
                  4112 0 320 stub_two_handles)) = engines stub_two_handles \<and>
   memory (snd (Java_io_spokestack_spokestack_webrtc_AutomaticGainControl_process stub_agc stub_env
                  4112 0 320 stub_two_handles)) = memory stub_two_handles \<and>
   miclevel stub_two_handles = 128 \<and>
   miclevel (snd (Java_io_spokestack_spokestack_webrtc_AutomaticGainControl_process stub_agc stub_env
                  4112 0 320 stub_two_handles)) = 129"
proof -
  let ?f1 = "GetDirectBufferAddress env buffer1" and ?f2 = "GetDirectBufferAddress env buffer2"
  obtain r1 l1 t1 e1 m1 where p1: "WebRtcAgc_Process A agc1 ?f1 0 (ucast (int_div length1 2)) ?f1 0
      (miclevel s) (miclevel s) 0 0 (engines s, memory s) = (r1, l1, t1, e1, m1)"
    by (metis prod_cases5)
  define s1 where "s1 = s\<lparr>engines := e1, memory := m1, miclevel := l1, calls := calls s @
            [AgcProcess agc1 ?f1 0 (ucast (int_div length1 2)) ?f1 0 (miclevel s) 0 r1]\<rparr>"
  have q1: "Java_io_spokestack_spokestack_webrtc_AutomaticGainControl_process A env agc1 buffer1
           length1 s = (r1, s1)"
    unfolding s1_def by (rule agc_process_eq [OF p1])
  obtain r2 l2 t2 e2 m2 where p2: "WebRtcAgc_Process A agc2 ?f2 0 (ucast (int_div length2 2)) ?f2 0
      (miclevel s1) (miclevel s1) 0 0 (engines s1, memory s1) = (r2, l2, t2, e2, m2)"
    by (metis prod_cases5)
  have q2: "Java_io_spokestack_spokestack_webrtc_AutomaticGainControl_process A env agc2 buffer2
           length2 s1 = (r2, s1\<lparr>engines := e2, memory := m2, miclevel := l2, calls := calls s1 @
            [AgcProcess agc2 ?f2 0 (ucast (int_div length2 2)) ?f2 0 (miclevel s1) 0 r2]\<rparr>)"
    by (rule agc_process_eq [OF p2])
  have general: "case Java_io_spokestack_spokestack_webrtc_AutomaticGainControl_process A env agc1 buffer1
           length1 s of
      (r1, s1) \<Rightarrow>
        case Java_io_spokestack_spokestack_webrtc_AutomaticGainControl_process A env agc2 buffer2
               length2 s1 of
          (r2, s2) \<Rightarrow>
            calls s2 = calls s @
              [AgcProcess agc1 ?f1 0 (ucast (int_div length1 2)) ?f1 0 (miclevel s) 0 r1,
               AgcProcess agc2 ?f2 0 (ucast (int_div length2 2)) ?f2 0 (miclevel s1) 0 r2] \<and>
            miclevel s1 = fst (snd (WebRtcAgc_Process A agc1 ?f1 0
              (ucast (int_div length1 2)) ?f1 0 (miclevel s) (miclevel s) 0 0
              (engines s, memory s))) \<and>
            (r2, miclevel s2) = (case WebRtcAgc_Process A agc2 ?f2 0
              (ucast (int_div length2 2)) ?f2 0 (miclevel s1) (miclevel s1) 0 0
              (engines s1, memory s1) of (r, lvl, rest) \<Rightarrow> (r, lvl))"
    by (simp add: q1 q2 p2) (simp add: s1_def p1)
  have stub: "calls stub_two_handles =
     [AgcCreate 0 4096, AgcInit 4096 0 100 3 16000 0,
      AgcSetConfig 4096 \<lparr>config_targetLevelDbfs = 3, config_compressionGaindB = 9,
        config_limiterEnable = 1\<rparr> 0,
      AgcCreate 0 4112, AgcInit 4112 0 100 3 16000 0,
      AgcSetConfig 4112 \<lparr>config_targetLevelDbfs = 3, config_compressionGaindB = 9,
        config_limiterEnable = 1\<rparr> 0] \<and>
   fst (Java_io_spokestack_spokestack_webrtc_AutomaticGainControl_process stub_agc stub_env 4096 0 320
          stub_two_handles) = 0 \<and>
   fst (Java_io_spokestack_spokestack_webrtc_AutomaticGainControl_process stub_agc stub_env 4096 0 320
          (snd (Java_io_spokestack_spokestack_webrtc_AutomaticGainControl_process stub_agc stub_env
                  4112 0 320 stub_two_handles))) = 1 \<and>
   engines (snd (Java_io_spokestack_spokestack_webrtc_AutomaticGainControl_process stub_agc stub_env
                  4112 0 320 stub_two_handles)) = engines stub_two_handles \<and>
   memory (snd (Java_io_spokestack_spokestack_webrtc_AutomaticGainControl_process stub_agc stub_env
                  4112 0 320 stub_two_handles)) = memory stub_two_handles \<and>
   miclevel stub_two_handles = 128 \<and>
   miclevel (snd (Java_io_spokestack_spokestack_webrtc_AutomaticGainControl_process stub_agc stub_env
                  4112 0 320 stub_two_handles)) = 129"
    by (simp add: run_defs)
  show ?thesis
    using general stub by (rule conjI)
qed

section \<open>The gain control's creation sequence\<close>

text \<open>
  Converting an \<^verbatim>\<open>int\<close> to an \<^verbatim>\<open>int16_t\<close> field or parameter keeps the value when it lies
  between -32768 and 32767.
\<close>

lemma ucast_jint_int16: "(ucast (x :: jint) :: int16_t) = word_of_int (sint x)"
proof -
  have "(ucast x :: int16_t) = scast x"
    by (simp add: down_cast_same [symmetric] is_down)
  then show ?thesis by (simp only: scast_eq)
qed

lemma sint_word_of_int_int16:
  assumes "- (2 ^ 15) \<le> k" "k < 2 ^ 15"
  shows "sint (word_of_int k :: int16_t) = k"
  using assms by (simp add: int_word_sint)

lemma sint_ucast_in_range:
  assumes "- (2 ^ 15) \<le> sint (x :: jint)" "sint x < 2 ^ 15"
  shows "sint (ucast x :: int16_t) = sint x"
  using assms by (simp only: ucast_jint_int16 sint_word_of_int_int16)




section \<open>Byte counts and offsets handed to the engines\<close>

lemma sint_ucast_half_length:
  assumes "0 \<le> sint length'" and "sint length' < 65536"
  shows "sint (ucast (int_div length' 2) :: int16_t) = sint length' div 2"
proof -
  have h: "sint (int_div length' 2) = sint length' div 2"
    using assms(1) by (simp add: sint_int_div_2 sdiv2_nonneg)
  have "- (2 ^ 15) \<le> sint (int_div length' 2)" "sint (int_div length' 2) < 2 ^ 15"
    using assms unfolding h by simp_all
  then have "sint (ucast (int_div length' 2) :: int16_t) = sint (int_div length' 2)"
    by (rule sint_ucast_in_range)
  then show ?thesis
    by (simp only: h)
qed

lemma vad_process_odd:
  assumes "0 \<le> sint length'" and "odd (sint length')"
  shows "Java_io_spokestack_spokestack_webrtc_VoiceActivityDetector_process V env vad rate buffer length' s =
         Java_io_spokestack_spokestack_webrtc_VoiceActivityDetector_process V env vad rate buffer (length' - 1) s"
  by (simp only: Java_io_spokestack_spokestack_webrtc_VoiceActivityDetector_process_def
      int_div_odd [OF assms])

lemma agc_process_odd:
  assumes "0 \<le> sint length'" and "odd (sint length')"
  shows "Java_io_spokestack_spokestack_webrtc_AutomaticGainControl_process A env agc buffer length' s =
         Java_io_spokestack_spokestack_webrtc_AutomaticGainControl_process A env agc buffer (length' - 1) s"
  by (simp only: Java_io_spokestack_spokestack_webrtc_AutomaticGainControl_process_def
      int_div_odd [OF assms])

lemma ans_process_odd:
  assumes "odd (sint offset)"
  shows "Java_io_spokestack_spokestack_webrtc_AcousticNoiseSuppressor_process N env ans buffer offset s =
         Java_io_spokestack_spokestack_webrtc_AcousticNoiseSuppressor_process N env ans buffer (offset - 1) s"
  by (simp only: Java_io_spokestack_spokestack_webrtc_AcousticNoiseSuppressor_process_def
      size_div_odd [OF assms])

lemma vad_process_calls:
  "calls (snd (Java_io_spokestack_spokestack_webrtc_VoiceActivityDetector_process V env vad rate buffer length' s)) =
     calls s @ [VadProcess vad rate (GetDirectBufferAddress env buffer) (int_div length' 2)
                  (fst (Java_io_spokestack_spokestack_webrtc_VoiceActivityDetector_process V env vad rate buffer length' s))]"
  by (simp add: process_defs invoke_defs Let_def split: prod.splits)

lemma agc_process_calls:
  "calls (snd (Java_io_spokestack_spokestack_webrtc_AutomaticGainControl_process A env agc buffer length' s)) =
     calls s @ [AgcProcess agc (GetDirectBufferAddress env buffer) 0 (ucast (int_div length' 2))
                  (GetDirectBufferAddress env buffer) 0 (miclevel s) 0
                  (fst (Java_io_spokestack_spokestack_webrtc_AutomaticGainControl_process A env agc buffer length' s))]"
  by (simp add: process_defs invoke_defs Let_def split: prod.splits)

lemma ans_process_calls:
  "calls (snd (Java_io_spokestack_spokestack_webrtc_AcousticNoiseSuppressor_process N env ans buffer offset s)) =
     calls s @ [NsxProcess ans
        (GetDirectBufferAddress env buffer + word_of_int (2 * (sint offset div 2))) 0
        (GetDirectBufferAddress env buffer + word_of_int (2 * (sint offset div 2))) 0
        (fst (Java_io_spokestack_spokestack_webrtc_AcousticNoiseSuppressor_process N env ans buffer offset s))]"
  by (simp only: process_defs invoke_defs Let_def ptr_floor split: prod.splits) simp

lemma stub_int_div_large: "int_div 131393 2 = 65696"
  by (simp add: int_div_def signed_divide_int_def)

text \<open>
  C9, as stated, fails for the gain control on a long buffer. With the odd length 131393
  the quotient is 65696, but the engine's \<^verbatim>\<open>samples\<close> parameter is an \<^verbatim>\<open>int16_t\<close> and
  receives 160, which the stub accepts as a frame: neither the floor of half the length
  nor the quotient truncated toward zero.
\<close>

theorem agc_large_length_counterexample:
  "calls (snd (Java_io_spokestack_spokestack_webrtc_AutomaticGainControl_process stub_agc stub_env 4096 0 131393 stub_start)) =
     [AgcProcess 4096 8192 0 160 8192 0 128 0 0] \<and>
   fst (Java_io_spokestack_spokestack_webrtc_AutomaticGainControl_process stub_agc stub_env 4096 0 131393 stub_start) = 0 \<and>
   odd (sint (131393 :: jint)) \<and>
   sint (131393 :: jint) div 2 = 65696 \<and>
   sint (131393 :: jint) sdiv 2 = 65696 \<and>
   sint (160 :: int16_t) = 160 \<and>
   sint (160 :: int16_t) \<noteq> sint (131393 :: jint) div 2"
  by (simp add: process_defs invoke_defs stub_defs stub_int_div_large signed_divide_int_def)

text \<open>
  C9, amended. \<^verbatim>\<open>length / 2\<close> is the quotient truncated toward zero, for every length,
  and the floor of half the length when the length is not negative. The detector
  passes this quotient as the sample count; the gain control passes it converted to the
  \<^verbatim>\<open>int16_t\<close> parameter, which is the floor of half the length for a length from 0 to
  65535. An odd length that is not negative behaves exactly as the even length one
  below it, in both: the trailing byte is ignored and nothing is reported. For every
  offset the suppressor's frame pointer is moved by \<open>2 * \<lfloor>offset / 2\<rfloor>\<close> bytes, and an
  odd offset behaves exactly as the even offset one below it.
\<close>

theorem byte_count_conversion:
  "sint (int_div length' 2) = sint length' sdiv 2 \<and>
   (0 \<le> sint length' \<longrightarrow> sint length' sdiv 2 = sint length' div 2) \<and>
   (0 \<le> sint length' \<and> sint length' < 65536 \<longrightarrow>
      sint (ucast (int_div length' 2) :: int16_t) = sint length' div 2) \<and>
   calls (snd (Java_io_spokestack_spokestack_webrtc_VoiceActivityDetector_process V env vad rate buffer length' s)) =
     calls s @ [VadProcess vad rate (GetDirectBufferAddress env buffer) (int_div length' 2)
                  (fst (Java_io_spokestack_spokestack_webrtc_VoiceActivityDetector_process V env vad rate buffer length' s))] \<and>
   calls (snd (Java_io_spokestack_spokestack_webrtc_AutomaticGainControl_process A env agc buffer length' s)) =
     calls s @ [AgcProcess agc (GetDirectBufferAddress env buffer) 0 (ucast (int_div length' 2))
                  (GetDirectBufferAddress env buffer) 0 (miclevel s) 0
                  (fst (Java_io_spokestack_spokestack_webrtc_AutomaticGainControl_process A env agc buffer length' s))] \<and>
   calls (snd (Java_io_spokestack_spokestack_webrtc_AcousticNoiseSuppressor_process N env ans buffer offset s)) =
     calls s @ [NsxProcess ans
        (GetDirectBufferAddress env buffer + word_of_int (2 * (sint offset div 2))) 0
        (GetDirectBufferAddress env buffer + word_of_int (2 * (sint offset div 2))) 0
        (fst (Java_io_spokestack_spokestack_webrtc_AcousticNoiseSuppressor_process N env ans buffer offset s))] \<and>
   (0 \<le> sint length' \<and> odd (sint length') \<longrightarrow>
      Java_io_spokestack_spokestack_webrtc_VoiceActivityDetector_process V env vad rate buffer length' s =
        Java_io_spokestack_spokestack_webrtc_VoiceActivityDetector_process V env vad rate buffer (length' - 1) s \<and>
      Java_io_spokestack_spokestack_webrtc_AutomaticGainControl_process A env agc buffer length' s =
        Java_io_spokestack_spokestack_webrtc_AutomaticGainControl_process A env agc buffer (length' - 1) s) \<and>
   (odd (sint offset) \<longrightarrow>
      Java_io_spokestack_spokestack_webrtc_AcousticNoiseSuppressor_process N env ans buffer offset s =
        Java_io_spokestack_spokestack_webrtc_AcousticNoiseSuppressor_process N env ans buffer (offset - 1) s)"
proof (intro conjI impI)
  show "sint (int_div length' 2) = sint length' sdiv 2"
    by (rule sint_int_div_2)
  show "sint length' sdiv 2 = sint length' div 2" if "0 \<le> sint length'"
    using that by (rule sdiv2_nonneg)
  show "sint (ucast (int_div length' 2) :: int16_t) = sint length' div 2"
    if "0 \<le> sint length' \<and> sint length' < 65536"
    using that by (intro sint_ucast_half_length) simp_all
  show "Java_io_spokestack_spokestack_webrtc_VoiceActivityDetector_process V env vad rate buffer length' s =
        Java_io_spokestack_spokestack_webrtc_VoiceActivityDetector_process V env vad rate buffer (length' - 1) s"
    if "0 \<le> sint length' \<and> odd (sint length')"
    using that by (intro vad_process_odd) simp_all
  show "Java_io_spokestack_spokestack_webrtc_AutomaticGainControl_process A env agc buffer length' s =
        Java_io_spokestack_spokestack_webrtc_AutomaticGainControl_process A env agc buffer (length' - 1) s"
    if "0 \<le> sint length' \<and> odd (sint length')"
    using that by (intro agc_process_odd) simp_all
  show "Java_io_spokestack_spokestack_webrtc_AcousticNoiseSuppressor_process N env ans buffer offset s =
        Java_io_spokestack_spokestack_webrtc_AcousticNoiseSuppressor_process N env ans buffer (offset - 1) s"
    if "odd (sint offset)"
    using that by (rule ans_process_odd)
qed (rule vad_process_calls agc_process_calls ans_process_calls)+

text \<open>
  On the stubs: 321 bytes are processed as 320, and the offset -3 as the offset -4.
\<close>

theorem byte_count_conversion_witness:
  "0 \<le> sint (321 :: jint) \<and> sint (321 :: jint) < 65536 \<and> odd (sint (321 :: jint)) \<and>
   odd (sint (- 3 :: jint)) \<and>
   sint (ucast (int_div 321 2) :: int16_t) = 160 \<and>
   Java_io_spokestack_spokestack_webrtc_VoiceActivityDetector_process stub_vad stub_env 4096 16000 0 321 stub_start =
   Java_io_spokestack_spokestack_webrtc_VoiceActivityDetector_process stub_vad stub_env 4096 16000 0 320 stub_start \<and>
   Java_io_spokestack_spokestack_webrtc_AutomaticGainControl_process stub_agc stub_env 4096 0 321 stub_start =
   Java_io_spokestack_spokestack_webrtc_AutomaticGainControl_process stub_agc stub_env 4096 0 320 stub_start \<and>
   fst (Java_io_spokestack_spokestack_webrtc_VoiceActivityDetector_process stub_vad stub_env 4096 16000 0 321 stub_start) = 0 \<and>
   Java_io_spokestack_spokestack_webrtc_AcousticNoiseSuppressor_process stub_nsx stub_env 4096 0 (- 3) stub_start =
   Java_io_spokestack_spokestack_webrtc_AcousticNoiseSuppressor_process stub_nsx stub_env 4096 0 (- 4) stub_start \<and>
   calls (snd (Java_io_spokestack_spokestack_webrtc_AcousticNoiseSuppressor_process stub_nsx stub_env 4096 0 (- 3) stub_start)) =
     [NsxProcess 4096 8188 0 8188 0 0]"
proof -
  have h: "0 \<le> sint (321 :: jint)" "sint (321 :: jint) < 65536"
    and o: "odd (sint (321 :: jint))" "odd (sint (- 3 :: jint))"
    by simp_all
  note t = byte_count_conversion [where V = stub_vad and env = stub_env and vad = 4096
      and rate = 16000 and buffer = 0 and s = stub_start and N = stub_nsx and ans = 4096
      and offset = "- 3" and A = stub_agc and agc = 4096 and length' = 321]
  have a: "sint (ucast (int_div 321 2) :: int16_t) = 160"
    using t h by simp
  have b: "Java_io_spokestack_spokestack_webrtc_VoiceActivityDetector_process stub_vad stub_env 4096 16000 0 321 stub_start =
    Java_io_spokestack_spokestack_webrtc_VoiceActivityDetector_process stub_vad stub_env 4096 16000 0 320 stub_start"
    "Java_io_spokestack_spokestack_webrtc_AutomaticGainControl_process stub_agc stub_env 4096 0 321 stub_start =
    Java_io_spokestack_spokestack_webrtc_AutomaticGainControl_process stub_agc stub_env 4096 0 320 stub_start"
    using t h o by simp_all
  have c: "Java_io_spokestack_spokestack_webrtc_AcousticNoiseSuppressor_process stub_nsx stub_env 4096 0 (- 3) stub_start =
    Java_io_spokestack_spokestack_webrtc_AcousticNoiseSuppressor_process stub_nsx stub_env 4096 0 (- 4) stub_start"
    using t o by simp
  have d: "fst (Java_io_spokestack_spokestack_webrtc_VoiceActivityDetector_process stub_vad stub_env 4096 16000 0 320 stub_start) = 0"
    by (simp add: process_defs invoke_defs stub_defs stub_int_div)
  have e: "calls (snd (Java_io_spokestack_spokestack_webrtc_AcousticNoiseSuppressor_process stub_nsx stub_env 4096 0 (- 4) stub_start)) =
      [NsxProcess 4096 8188 0 8188 0 0]"
    by (simp add: process_defs invoke_defs stub_defs ptr_floor)
  show ?thesis
    using h o a b c d e by simp
qed

section \<open>Failed process calls\<close>












section \<open>A suppressor call at an odd offset\<close>


end
